theory Spec2Isabelle
  imports Main "HOL-Library.Sublist"
begin

unbundle bit_operations_syntax

section \<open>Python values: exceptions, strings, lists\<close>

text \<open>
  The program is \<^verbatim>\<open>gitfs.py\<close>, a read-only FUSE view of the references and trees of a
  git repository. Every Python function is modelled as a HOL function into
  \<open>py_exn + 'a\<close>: \<open>Inl\<close> is an exception that leaves the function, \<open>Inr\<close> is the value
  it returns. Byte strings are \<open>string\<close>, Python integers are \<open>int\<close>.
\<close>

datatype errno = ENOENT | EACCES

text \<open>
  \<open>GitFSError\<close> carries the text before the formatted list and the list of matching
  references that the source formats into the message.
\<close>

datatype py_exn =
    FuseOSError errno
  | GitFSError string "string list"
  | KeyError
  | TypeError
  | IndexError
  | AttributeError

text \<open>
  \<open>open\<close> and \<open>read\<close> hand their \<open>FuseOSError\<close> back with \<^verbatim>\<open>return\<close>, not with
  \<^verbatim>\<open>raise\<close>: what such a function returns is either an ordinary value or an exception
  object.
\<close>

datatype 'a returned = Value 'a | ErrorObject py_exn

definition and_then :: "py_exn + 'a \<Rightarrow> ('a \<Rightarrow> py_exn + 'b) \<Rightarrow> py_exn + 'b" where
  "and_then m f = (case m of Inl e \<Rightarrow> Inl e | Inr v \<Rightarrow> f v)"

text \<open>\<^verbatim>\<open>s.startswith(p)\<close>\<close>

definition startswith :: "string \<Rightarrow> string \<Rightarrow> bool" where
  "startswith s p = prefix p s"

text \<open>\<^verbatim>\<open>s.split(sep)\<close> for a one-character separator: never the empty list.\<close>

fun split :: "string \<Rightarrow> char \<Rightarrow> string list" where
  "split [] sep = [[]]"
| "split (c # cs) sep =
     (if c = sep then [] # split cs sep
      else (case split cs sep of [] \<Rightarrow> [[c]] | p # ps \<Rightarrow> (c # p) # ps))"

text \<open>\<^verbatim>\<open>s.split(sep, 1)\<close>: at most one cut, at the first separator.\<close>

fun split1 :: "string \<Rightarrow> char \<Rightarrow> string list" where
  "split1 [] sep = [[]]"
| "split1 (c # cs) sep =
     (if c = sep then [[], cs]
      else (case split1 cs sep of [] \<Rightarrow> [[c]] | p # ps \<Rightarrow> (c # p) # ps))"

text \<open>\<^verbatim>\<open>xs[i]\<close>: a negative index counts from the end, an index out of range raises.\<close>

definition getitem :: "'a list \<Rightarrow> int \<Rightarrow> py_exn + 'a" where
  "getitem xs i =
     (if 0 \<le> i \<and> i < int (length xs) then Inr (xs ! nat i)
      else if i < 0 \<and> - int (length xs) \<le> i then Inr (xs ! nat (int (length xs) + i))
      else Inl IndexError)"

text \<open>
  \<^verbatim>\<open>xs[a:b]\<close>: each bound is taken from the end when negative and clipped to
  \<open>0 .. len(xs)\<close>; the slice is empty when the bounds cross.
\<close>

definition slice_bound :: "nat \<Rightarrow> int \<Rightarrow> nat" where
  "slice_bound n i = (if i < 0 then nat (max (int n + i) 0) else min (nat i) n)"

definition slice :: "'a list \<Rightarrow> int \<Rightarrow> int \<Rightarrow> 'a list" where
  "slice xs a b =
     (let lo = slice_bound (length xs) a; hi = slice_bound (length xs) b
      in take (hi - lo) (drop lo xs))"

text \<open>\<^verbatim>\<open>reduce(f, xs, acc)\<close> with a function that may raise.\<close>

fun reduce :: "('a \<Rightarrow> 'b \<Rightarrow> py_exn + 'a) \<Rightarrow> 'b list \<Rightarrow> 'a \<Rightarrow> py_exn + 'a" where
  "reduce f [] acc = Inr acc"
| "reduce f (x # xs) acc = (case f acc x of Inl e \<Rightarrow> Inl e | Inr acc' \<Rightarrow> reduce f xs acc')"

text \<open>A list comprehension \<^verbatim>\<open>[f(x) for x in xs]\<close> whose element expression may raise.\<close>

fun comprehension :: "('a \<Rightarrow> py_exn + 'b) \<Rightarrow> 'a list \<Rightarrow> py_exn + 'b list" where
  "comprehension f [] = Inr []"
| "comprehension f (x # xs) =
     (case f x of Inl e \<Rightarrow> Inl e
      | Inr y \<Rightarrow> (case comprehension f xs of Inl e \<Rightarrow> Inl e | Inr ys \<Rightarrow> Inr (y # ys)))"

text \<open>
  \<^verbatim>\<open>list(frozenset(xs))\<close>: the elements of \<open>xs\<close>, each once. Python leaves the order
  open; the model keeps the order of the last occurrences, and no theorem below speaks
  of the order.
\<close>

definition list_frozenset :: "'a list \<Rightarrow> 'a list" where
  "list_frozenset xs = remdups xs"

section \<open>The Stat tuple and \<open>copy_stat\<close>\<close>

record Stat =
  st_mode :: int
  st_ino :: int
  st_dev :: int
  st_nlink :: int
  st_uid :: int
  st_gid :: int
  st_size :: int
  st_atime :: int
  st_mtime :: int
  st_ctime :: int

text \<open>
  \<^verbatim>\<open>copy_stat(st, **kwargs)\<close>: the keyword arguments are the field updates of
  \<^verbatim>\<open>_replace(**kwargs)\<close>, a function on the record. \<^verbatim>\<open>0222\<close> is octal, 146.
\<close>

definition copy_stat :: "Stat \<Rightarrow> (Stat \<Rightarrow> Stat) \<Rightarrow> Stat" where
  "copy_stat st kwargs =
     (let result = kwargs st
      in result\<lparr>st_ino := 0, st_mode := st_mode result AND NOT 146\<rparr>)"

definition S_IFDIR :: int where
  "S_IFDIR = 16384"

definition O_RDONLY :: int where
  "O_RDONLY = 0"

definition O_ACCMODE :: int where
  "O_ACCMODE = 3"

section \<open>The object store (pygit2)\<close>

text \<open>
  The repository is what pygit2 shows of it: the reference names, the object each
  reference points to, the objects by identifier, and the \<^verbatim>\<open>os.lstat\<close> of the
  repository's own directory. References are direct ones, for which
  \<^verbatim>\<open>resolve()\<close> is the reference itself. A lookup that pygit2 answers with
  \<^verbatim>\<open>KeyError\<close> is \<open>None\<close> in the maps.
\<close>

type_synonym oid = nat

record tree_entry =
  entry_name :: string
  entry_filemode :: int
  entry_oid :: oid

datatype git_object = Commit oid | Tree "tree_entry list" | Blob string

record repository =
  listall_references :: "string list"
  lookup_reference :: "string \<Rightarrow> oid option"
  objects :: "oid \<Rightarrow> git_object option"
  repo_lstat :: Stat

text \<open>\<^verbatim>\<open>repo[oid]\<close>\<close>

definition repo_getitem :: "repository \<Rightarrow> oid \<Rightarrow> py_exn + git_object" where
  "repo_getitem repo i = (case objects repo i of None \<Rightarrow> Inl KeyError | Some ob \<Rightarrow> Inr ob)"

text \<open>\<^verbatim>\<open>repo.lookup_reference(name).oid\<close>\<close>

definition reference_oid :: "repository \<Rightarrow> string \<Rightarrow> py_exn + oid" where
  "reference_oid repo n = (case lookup_reference repo n of None \<Rightarrow> Inl KeyError | Some i \<Rightarrow> Inr i)"

text \<open>\<^verbatim>\<open>commit.tree\<close>: only a commit has the attribute.\<close>

definition commit_tree :: "repository \<Rightarrow> git_object \<Rightarrow> py_exn + git_object" where
  "commit_tree repo ob = (case ob of Commit t \<Rightarrow> repo_getitem repo t | _ \<Rightarrow> Inl AttributeError)"

text \<open>\<^verbatim>\<open>blob.data\<close>: only a blob has the attribute.\<close>

definition blob_data :: "git_object \<Rightarrow> py_exn + string" where
  "blob_data ob = (case ob of Blob d \<Rightarrow> Inr d | _ \<Rightarrow> Inl AttributeError)"

text \<open>
  \<^verbatim>\<open>t[part]\<close> on an object: a tree answers with its entry of that name or
  \<^verbatim>\<open>KeyError\<close>; any other object cannot be subscripted (\<^verbatim>\<open>TypeError\<close>).
\<close>

definition tree_getitem :: "git_object \<Rightarrow> string \<Rightarrow> py_exn + tree_entry" where
  "tree_getitem t part =
     (case t of
        Tree es \<Rightarrow> (case find (\<lambda>e. entry_name e = part) es of
                      None \<Rightarrow> Inl KeyError | Some e \<Rightarrow> Inr e)
      | _ \<Rightarrow> Inl TypeError)"

text \<open>\<^verbatim>\<open>entry.to_object()\<close>\<close>

definition to_object :: "repository \<Rightarrow> tree_entry \<Rightarrow> py_exn + git_object" where
  "to_object repo e = repo_getitem repo (entry_oid e)"

section \<open>The functions of gitfs.py\<close>

text \<open>\<^verbatim>\<open>git_tree_to_direntries\<close>, as the list its callers build from it.\<close>

definition git_tree_to_direntries :: "git_object \<Rightarrow> py_exn + string list" where
  "git_tree_to_direntries tree =
     (case tree of Tree es \<Rightarrow> Inr (map entry_name es) | _ \<Rightarrow> Inl TypeError)"

text \<open>
  \<^verbatim>\<open>git_tree_find\<close>. The \<^verbatim>\<open>reduce\<close> stands before the \<^verbatim>\<open>try\<close>: what it raises leaves
  the function. The \<^verbatim>\<open>try\<close> turns \<^verbatim>\<open>TypeError\<close> and \<^verbatim>\<open>KeyError\<close> of the last lookup into
  \<open>None\<close>.
\<close>

definition advance :: "repository \<Rightarrow> git_object option \<Rightarrow> string \<Rightarrow> py_exn + git_object option" where
  "advance repo t part =
     (case t of
        None \<Rightarrow> Inr None
      | Some ob \<Rightarrow>
          and_then (tree_getitem ob part) (\<lambda>e.
          and_then (to_object repo e) (\<lambda>ob'. Inr (Some ob'))))"

definition git_tree_find :: "repository \<Rightarrow> git_object \<Rightarrow> string \<Rightarrow> py_exn + tree_entry option" where
  "git_tree_find repo tree path =
     (let parts = split path CHR ''/'' in
      and_then (reduce (advance repo) (butlast parts) (Some tree)) (\<lambda>t.
      and_then (getitem parts (- 1)) (\<lambda>last_part.
        case t of
          None \<Rightarrow> Inr None
        | Some ob \<Rightarrow>
            (case tree_getitem ob last_part of
               Inr entry \<Rightarrow> Inr (Some entry)
             | Inl TypeError \<Rightarrow> Inr None
             | Inl KeyError \<Rightarrow> Inr None
             | Inl e \<Rightarrow> Inl e))))"

text \<open>The property \<^verbatim>\<open>refs\<close>: the names under \<^verbatim>\<open>refs/\<close>, without the leading \<^verbatim>\<open>refs\<close>.\<close>

definition refs :: "repository \<Rightarrow> string list" where
  "refs repo = map (drop 4) (filter (\<lambda>r. startswith r ''refs/'') (listall_references repo))"

definition get_parent_ref :: "repository \<Rightarrow> string \<Rightarrow> py_exn + string" where
  "get_parent_ref repo path =
     (let matches = filter (\<lambda>r. startswith path (r @ ''/'')) (refs repo)
      in if length matches \<noteq> 1 then Inl (FuseOSError ENOENT) else Inr (hd matches))"

definition get_child_refs :: "repository \<Rightarrow> string \<Rightarrow> string list" where
  "get_child_refs repo path = filter (\<lambda>r. startswith r path) (refs repo)"

definition get_reference_commit :: "repository \<Rightarrow> string \<Rightarrow> py_exn + git_object" where
  "get_reference_commit repo ref_name =
     and_then (reference_oid repo (''refs'' @ ref_name)) (repo_getitem repo)"

definition getattr :: "repository \<Rightarrow> string \<Rightarrow> py_exn + Stat" where
  "getattr repo path =
     (if startswith path ''/.'' then Inl (FuseOSError ENOENT)
      else
        let repo_stat = repo_lstat repo;
            default_stat = copy_stat repo_stat id
        in if path = ''/'' \<or> get_child_refs repo path \<noteq> [] then Inr default_stat
           else
             and_then (get_parent_ref repo path) (\<lambda>parent.
             and_then (get_reference_commit repo parent) (\<lambda>commit.
             and_then (commit_tree repo commit) (\<lambda>tree.
             and_then (git_tree_find repo tree (drop (length parent + 1) path)) (\<lambda>entry.
               case entry of
                 None \<Rightarrow> Inl (FuseOSError ENOENT)
               | Some e \<Rightarrow>
                   if (entry_filemode e AND S_IFDIR) = S_IFDIR then Inr default_stat
                   else
                     and_then (repo_getitem repo (entry_oid e)) (\<lambda>blob.
                     and_then (blob_data blob) (\<lambda>data.
                       Inr (copy_stat repo_stat
                             (\<lambda>s. s\<lparr>st_size := int (length data),
                                     st_mode := entry_filemode e\<rparr>)))))))))"

definition readdir :: "repository \<Rightarrow> string \<Rightarrow> py_exn + string list" where
  "readdir repo path =
     (let rs = refs repo in
      if path = ''/'' then
        and_then (comprehension (\<lambda>p. getitem p 1)
                    (filter (\<lambda>p. p \<noteq> []) (map (\<lambda>r. split r CHR ''/'') rs)))
          (\<lambda>first_parts. Inr (list_frozenset first_parts))
      else
        let matching = filter (\<lambda>r. startswith r (path @ ''/'')) rs in
        if matching \<noteq> [] then
          let path_len = length path + 1 in
          and_then (comprehension (\<lambda>r. getitem (split1 (drop path_len r) CHR ''/'') 0)
                      (filter (\<lambda>r. length r > path_len) matching))
            (\<lambda>first_parts. Inr (list_frozenset first_parts))
        else if path \<in> set rs then
          and_then (reference_oid repo (''refs'' @ path)) (\<lambda>i.
          and_then (repo_getitem repo i) (\<lambda>commit.
          and_then (commit_tree repo commit) git_tree_to_direntries))
        else
          let matching = filter (\<lambda>r. startswith path (r @ ''/'')) rs in
          if length matching = 1 then
            let ref_name = hd matching in
            and_then (reference_oid repo (''refs'' @ ref_name)) (\<lambda>i.
            and_then (repo_getitem repo i) (\<lambda>commit.
            and_then (commit_tree repo commit) (\<lambda>tree.
            and_then (git_tree_find repo tree (drop (length ref_name + 1) path)) (\<lambda>entry.
              case entry of
                None \<Rightarrow> Inl (FuseOSError ENOENT)
              | Some e \<Rightarrow>
                  if (entry_filemode e AND S_IFDIR) = S_IFDIR then
                    and_then (repo_getitem repo (entry_oid e)) git_tree_to_direntries
                  else Inr []))))
          else if length matching > 1 then
            Inl (GitFSError ''Duplicate refs matching path in readdir query: '' matching)
          else Inr [])"

text \<open>
  \<^verbatim>\<open>open\<close>. In Python \<^verbatim>\<open>&\<close> binds tighter than \<^verbatim>\<open>!=\<close>, so the test is
  \<^verbatim>\<open>(flags & os.O_RDONLY) != os.O_RDONLY\<close>.
\<close>

definition gitfs_open :: "string \<Rightarrow> int \<Rightarrow> py_exn + int returned" where
  "gitfs_open path flags =
     (if startswith path ''/.'' then Inr (ErrorObject (FuseOSError ENOENT))
      else if (flags AND O_RDONLY) \<noteq> O_RDONLY then Inr (ErrorObject (FuseOSError EACCES))
      else Inr (Value 0))"

definition gitfs_read :: "repository \<Rightarrow> string \<Rightarrow> int \<Rightarrow> int \<Rightarrow> py_exn + string returned" where
  "gitfs_read repo path sz offset =
     (if startswith path ''/.'' then Inr (ErrorObject (FuseOSError ENOENT))
      else
        let matching = filter (\<lambda>r. startswith path (r @ ''/'')) (refs repo) in
        if length matching = 1 then
          let ref_name = hd matching in
          and_then (reference_oid repo (''refs'' @ ref_name)) (\<lambda>i.
          and_then (repo_getitem repo i) (\<lambda>commit.
          and_then (commit_tree repo commit) (\<lambda>tree.
          and_then (git_tree_find repo tree (drop (length ref_name + 1) path)) (\<lambda>entry.
            case entry of
              None \<Rightarrow> Inr (ErrorObject (FuseOSError ENOENT))
            | Some e \<Rightarrow>
                and_then (to_object repo e) (\<lambda>blob.
                and_then (blob_data blob) (\<lambda>data.
                  if offset = 0 \<and> int (length data) \<le> sz then Inr (Value data)
                  else Inr (Value (slice data offset (offset + sz)))))))))
        else if length matching > 1 then
          Inl (GitFSError ''Duplicate refs matching path in read query: '' matching)
        else Inr (ErrorObject (FuseOSError ENOENT)))"

text \<open>
  The read operation with the special case for \<open>offset = 0\<close> taken out: every blob is
  answered by the slice. This is the function the fast path is compared with.
\<close>

definition read_slice_only :: "repository \<Rightarrow> string \<Rightarrow> int \<Rightarrow> int \<Rightarrow> py_exn + string returned" where
  "read_slice_only repo path sz offset =
     (if startswith path ''/.'' then Inr (ErrorObject (FuseOSError ENOENT))
      else
        let matching = filter (\<lambda>r. startswith path (r @ ''/'')) (refs repo) in
        if length matching = 1 then
          let ref_name = hd matching in
          and_then (reference_oid repo (''refs'' @ ref_name)) (\<lambda>i.
          and_then (repo_getitem repo i) (\<lambda>commit.
          and_then (commit_tree repo commit) (\<lambda>tree.
          and_then (git_tree_find repo tree (drop (length ref_name + 1) path)) (\<lambda>entry.
            case entry of
              None \<Rightarrow> Inr (ErrorObject (FuseOSError ENOENT))
            | Some e \<Rightarrow>
                and_then (to_object repo e) (\<lambda>blob.
                and_then (blob_data blob) (\<lambda>data.
                  Inr (Value (slice data offset (offset + sz)))))))))
        else if length matching > 1 then
          Inl (GitFSError ''Duplicate refs matching path in read query: '' matching)
        else Inr (ErrorObject (FuseOSError ENOENT)))"

section \<open>Example repositories\<close>

text \<open>
  The \<^verbatim>\<open>lstat\<close> of a repository directory: mode \<^verbatim>\<open>040755\<close>, a real inode number.
\<close>

definition example_stat :: Stat where
  "example_stat =
     \<lparr>st_mode = 16877, st_ino = 42, st_dev = 1, st_nlink = 2, st_uid = 1000,
      st_gid = 1000, st_size = 4096, st_atime = 7, st_mtime = 8, st_ctime = 9\<rparr>"

text \<open>
  Two branches and a tag on one commit, whose tree holds the file \<^verbatim>\<open>README\<close>
  (mode \<^verbatim>\<open>0100644\<close>, content \<^verbatim>\<open>hello\<close>) and the directory \<^verbatim>\<open>src\<close> with the executable
  file \<^verbatim>\<open>a.py\<close> (mode \<^verbatim>\<open>0100755\<close>).
\<close>

definition example_tree :: git_object where
  "example_tree =
     Tree [\<lparr>entry_name = ''README'', entry_filemode = 33188, entry_oid = 3\<rparr>,
           \<lparr>entry_name = ''src'', entry_filemode = 16384, entry_oid = 4\<rparr>]"

definition example_objects :: "(oid \<times> git_object) list" where
  "example_objects =
     [(1, Commit 2),
      (2, example_tree),
      (3, Blob ''hello''),
      (4, Tree [\<lparr>entry_name = ''a.py'', entry_filemode = 33261, entry_oid = 5\<rparr>]),
      (5, Blob ''x'')]"

definition example_repo :: repository where
  "example_repo =
     \<lparr>listall_references = [''refs/heads/main'', ''refs/heads/dev'', ''refs/tags/v1''],
      lookup_reference =
        map_of [(''refs/heads/main'', 1), (''refs/heads/dev'', 1), (''refs/tags/v1'', 1)],
      objects = map_of example_objects,
      repo_lstat = example_stat\<rparr>"

text \<open>A repository whose only reference is \<^verbatim>\<open>refs/heads/master\<close>.\<close>

definition master_repo :: repository where
  "master_repo =
     \<lparr>listall_references = [''refs/heads/master''],
      lookup_reference = map_of [(''refs/heads/master'', 1)],
      objects = map_of example_objects,
      repo_lstat = example_stat\<rparr>"


lemmas example_defs =
  example_repo_def example_objects_def example_tree_def example_stat_def

lemmas eval_defs =
  refs_def startswith_def get_child_refs_def get_parent_ref_def get_reference_commit_def
  reference_oid_def repo_getitem_def commit_tree_def blob_data_def tree_getitem_def
  to_object_def git_tree_to_direntries_def git_tree_find_def advance_def getitem_def
  list_frozenset_def

section \<open>Auxiliary facts\<close>

lemma and_then_Inr [simp]: "and_then (Inr v) f = f v"
  by (simp add: and_then_def)

lemma and_then_Inl [simp]: "and_then (Inl e) f = Inl e"
  by (simp add: and_then_def)

lemma and_then_InrE:
  assumes "and_then m f = Inr y"
  obtains v where "m = Inr v" and "f v = Inr y"
  using assms by (cases m) (simp_all add: and_then_def)

lemma split_not_Nil: "split s sep \<noteq> []"
  by (induction s) (auto split: list.splits)

lemma hd_split: "hd (split s sep) = takeWhile (\<lambda>c. c \<noteq> sep) s"
proof (induction s)
  case Nil
  show ?case by simp
next
  case (Cons c cs)
  obtain p ps where "split cs sep = p # ps"
    using split_not_Nil [of cs sep] by (cases "split cs sep") auto
  with Cons show ?case by simp
qed

text \<open>Every name the property \<open>refs\<close> yields begins with a slash.\<close>

lemma refs_leading_slash:
  assumes "r \<in> set (refs repo)"
  shows "\<exists>t. r = CHR ''/'' # t"
proof -
  from assms obtain raw where "prefix ''refs/'' raw" and "r = drop 4 raw"
    by (auto simp: refs_def startswith_def)
  then show ?thesis by (auto simp: prefix_def)
qed

lemma getitem_split_1:
  "getitem (split (CHR ''/'' # t) CHR ''/'') 1 = Inr (takeWhile (\<lambda>c. c \<noteq> CHR ''/'') t)"
proof -
  obtain p ps where ps: "split t CHR ''/'' = p # ps"
    using split_not_Nil [of t "CHR ''/''"] by (cases "split t CHR ''/''") auto
  then have "p = takeWhile (\<lambda>c. c \<noteq> CHR ''/'') t"
    using hd_split [of t "CHR ''/''"] by simp
  with ps show ?thesis by (simp add: getitem_def)
qed

lemma comprehension_map_Inr:
  "(\<And>x. x \<in> set xs \<Longrightarrow> f (h x) = Inr (g x)) \<Longrightarrow>
     comprehension f (map h xs) = Inr (map g xs)"
  by (induction xs) simp_all

lemma filter_split_not_Nil:
  "filter (\<lambda>p. p \<noteq> []) (map (\<lambda>r. split r sep) rs) = map (\<lambda>r. split r sep) rs"
  by (induction rs) (simp_all add: split_not_Nil)

lemma copy_stat_ino: "st_ino (copy_stat st kwargs) = 0"
  by (simp add: copy_stat_def Let_def)

lemma copy_stat_mode: "st_mode (copy_stat st kwargs) AND 146 = 0"
  by (simp add: copy_stat_def Let_def and.assoc)

lemma slice_from_zero: "int (length xs) \<le> sz \<Longrightarrow> slice xs 0 sz = xs"
  by (simp add: slice_def slice_bound_def Let_def)

lemma slice_nonneg:
  "0 \<le> a \<Longrightarrow> 0 \<le> n \<Longrightarrow> slice xs a (a + n) = take (nat n) (drop (nat a) xs)"
  by (auto simp add: slice_def slice_bound_def Let_def min_def nat_add_distrib)

lemma fast_path_is_slice:
  "(if offset = 0 \<and> int (length data) \<le> sz then Inr (Value data)
    else Inr (Value (slice data offset (offset + sz))))
   = (Inr (Value (slice data offset (offset + sz))) :: py_exn + string returned)"
  by (simp add: slice_from_zero)

lemma slice_past_end: "int (length xs) \<le> a \<Longrightarrow> slice xs a b = []"
  by (auto simp add: slice_def slice_bound_def Let_def min_def)



lemma refs_example_repo: "refs example_repo = [''/heads/main'', ''/heads/dev'', ''/tags/v1'']"
  by (simp add: refs_def startswith_def example_repo_def)

section \<open>Attributes\<close>

text \<open>
  Claim C6. Every attribute record that \<open>getattr\<close> returns, whichever branch returns
  it (root, namespace directory, reference, directory or file inside a tree), has the
  three write bits \<^verbatim>\<open>0222\<close> (146) cleared in \<open>st_mode\<close> and \<open>st_ino\<close> equal to zero.
\<close>

theorem getattr_write_bits_cleared:
  assumes "getattr repo path = Inr st"
  shows "st_mode st AND 146 = 0 \<and> st_ino st = 0"
  using assms
  unfolding getattr_def Let_def
  by (auto split: if_splits option.splits elim!: and_then_InrE
        simp: copy_stat_ino copy_stat_mode)

text \<open>
  The executable file \<^verbatim>\<open>/heads/main/src/a.py\<close>: its mode \<^verbatim>\<open>0100755\<close> is returned as
  \<^verbatim>\<open>0100555\<close> (33133), with the blob's size 1, and the inode 42 of the repository
  directory is returned as 0.
\<close>

theorem getattr_write_bits_cleared_witness:
  "getattr example_repo ''/heads/main/src/a.py''
     = Inr (example_stat\<lparr>st_mode := 33133, st_ino := 0, st_size := 1\<rparr>)
   \<and> st_mode (example_stat\<lparr>st_mode := 33133, st_ino := 0, st_size := 1\<rparr>) AND 146 = 0
   \<and> st_ino (example_stat\<lparr>st_mode := 33133, st_ino := 0, st_size := 1\<rparr>) = 0"
proof -
  have run: "getattr example_repo ''/heads/main/src/a.py''
      = Inr (example_stat\<lparr>st_mode := 33133, st_ino := 0, st_size := 1\<rparr>)"
    by (simp add: getattr_def eval_defs example_defs copy_stat_def S_IFDIR_def)
  from getattr_write_bits_cleared [OF run] run show ?thesis by simp
qed

section \<open>Listing the root\<close>

text \<open>
  Claim C9. Listing the root returns a list without duplicates whose elements are
  exactly the first path segments of the current reference names: for a name
  \<^verbatim>\<open>/heads/main\<close>, the text between the leading slash and the next slash.
\<close>

theorem readdir_root_first_segments:
  "\<exists>names. readdir repo ''/'' = Inr names \<and> distinct names \<and>
     set names = (\<lambda>r. takeWhile (\<lambda>c. c \<noteq> CHR ''/'') (drop 1 r)) ` set (refs repo)"
proof -
  let ?seg = "\<lambda>r. takeWhile (\<lambda>c. c \<noteq> CHR ''/'') (drop 1 r)"
  have each: "getitem (split r CHR ''/'') 1 = Inr (?seg r)" if "r \<in> set (refs repo)" for r
    using refs_leading_slash [OF that] getitem_split_1 by auto
  have "comprehension (\<lambda>p. getitem p 1) (map (\<lambda>r. split r CHR ''/'') (refs repo))
          = Inr (map ?seg (refs repo))"
    using each by (rule comprehension_map_Inr)
  then have "readdir repo ''/'' = Inr (remdups (map ?seg (refs repo)))"
    by (simp add: readdir_def Let_def filter_split_not_Nil list_frozenset_def)
  then show ?thesis by simp
qed

text \<open>Two of the three references share the first segment \<^verbatim>\<open>heads\<close>; it is listed once.\<close>

theorem readdir_root_first_segments_witness:
  "\<exists>names. readdir example_repo ''/'' = Inr names \<and> distinct names \<and>
     set names = {''heads'', ''tags''}"
  using readdir_root_first_segments [of example_repo]
  by (simp add: refs_example_repo)

section \<open>Reading\<close>

text \<open>
  Claim C10. The branch of \<open>read\<close> that returns the whole content when the offset is 0
  and the content is no longer than the requested size returns what the slice
  \<^verbatim>\<open>data[offset:offset + size]\<close> returns there: \<open>read\<close> and the same function without
  the special case agree on every repository, path, size and offset.
\<close>

theorem read_fast_path_redundant:
  "gitfs_read repo path sz offset = read_slice_only repo path sz offset"
  unfolding gitfs_read_def read_slice_only_def fast_path_is_slice ..

text \<open>
  Reading 1024 bytes at offset 0 of the five-byte \<^verbatim>\<open>README\<close> takes the fast path; the
  function without it returns the same five bytes.
\<close>

theorem read_fast_path_redundant_witness:
  "gitfs_read example_repo ''/heads/main/README'' 1024 0 = Inr (Value ''hello'')
   \<and> read_slice_only example_repo ''/heads/main/README'' 1024 0 = Inr (Value ''hello'')"
proof -
  have "gitfs_read example_repo ''/heads/main/README'' 1024 0 = Inr (Value ''hello'')"
    by (simp add: gitfs_read_def eval_defs example_defs)
  with read_fast_path_redundant [of example_repo "''/heads/main/README''" 1024 0]
  show ?thesis by simp
qed

text \<open>
  Claim C4, as the code has it. Let the path lie under exactly one reference, let the
  tree lookup of the rest of the path find an entry, and let the entry's object be a
  blob with content \<open>data\<close> (a path that begins with \<^verbatim>\<open>/.\<close> is rejected before any lookup
  and resolves to nothing). Then \<open>read\<close> returns bytes, never an error: for an offset
  and a size that are both not negative, the bytes \<open>[offset, offset + size)\<close> of the
  content, cut off at its end; at offset 0 with a size of at least the length, the
  whole content; at an offset at or past the end, the empty byte sequence, whatever
  the size.
\<close>

theorem read_returns_clamped_range:
  assumes hidden: "\<not> startswith path ''/.''"
    and unique: "filter (\<lambda>r. startswith path (r @ ''/'')) (refs repo) = [ref_name]"
    and ref: "reference_oid repo (''refs'' @ ref_name) = Inr i"
    and commit: "repo_getitem repo i = Inr commit"
    and tree: "commit_tree repo commit = Inr tree"
    and entry: "git_tree_find repo tree (drop (length ref_name + 1) path) = Inr (Some e)"
    and blob: "to_object repo e = Inr (Blob data)"
  shows "(0 \<le> offset \<and> 0 \<le> sz \<longrightarrow>
            gitfs_read repo path sz offset
              = Inr (Value (take (nat sz) (drop (nat offset) data))))
       \<and> (offset = 0 \<and> int (length data) \<le> sz \<longrightarrow>
            gitfs_read repo path sz offset = Inr (Value data))
       \<and> (int (length data) \<le> offset \<longrightarrow>
            gitfs_read repo path sz offset = Inr (Value []))"
proof -
  have run: "gitfs_read repo path sz offset = Inr (Value (slice data offset (offset + sz)))"
    unfolding gitfs_read_def fast_path_is_slice
    using hidden ref entry by (simp add: unique commit tree blob blob_data_def)
  show ?thesis
    unfolding run
    by (auto simp: slice_nonneg slice_from_zero slice_past_end)
qed

text \<open>
  \<^verbatim>\<open>README\<close> of \<^verbatim>\<open>/heads/main\<close> holds \<^verbatim>\<open>hello\<close>: three bytes from offset 1, the whole
  content from offset 0 with size 5, and nothing from offset 5.
\<close>

theorem read_returns_clamped_range_witness:
  "gitfs_read example_repo ''/heads/main/README'' 3 1 = Inr (Value ''ell'')
   \<and> gitfs_read example_repo ''/heads/main/README'' 5 0 = Inr (Value ''hello'')
   \<and> gitfs_read example_repo ''/heads/main/README'' 3 5 = Inr (Value [])"
proof -
  let ?e = "\<lparr>entry_name = ''README'', entry_filemode = 33188, entry_oid = 3\<rparr>"
  have h1: "\<not> startswith ''/heads/main/README'' ''/.''"
    by (simp add: startswith_def)
  have h2: "filter (\<lambda>r. startswith ''/heads/main/README'' (r @ ''/'')) (refs example_repo)
              = [''/heads/main'']"
    by (simp add: refs_example_repo startswith_def)
  have h3: "reference_oid example_repo (''refs'' @ ''/heads/main'') = Inr 1"
    by (simp add: reference_oid_def example_repo_def)
  have h4: "repo_getitem example_repo 1 = Inr (Commit 2)"
    by (simp add: repo_getitem_def example_defs)
  have h5: "commit_tree example_repo (Commit 2) = Inr example_tree"
    by (simp add: commit_tree_def repo_getitem_def example_repo_def example_objects_def)
  have h6: "git_tree_find example_repo example_tree
              (drop (length ''/heads/main'' + 1) ''/heads/main/README'') = Inr (Some ?e)"
    by (simp add: eval_defs example_defs)
  have h7: "to_object example_repo ?e = Inr (Blob ''hello'')"
    by (simp add: to_object_def repo_getitem_def example_defs)
  note range = read_returns_clamped_range [OF h1 h2 h3 h4 h5 h6 h7]
  from range [of 1 3] range [of 0 5] range [of 5 3] show ?thesis by simp
qed

text \<open>
  The claim as stated, for every offset and size, fails: the slice
  \<^verbatim>\<open>data[offset:offset + size]\<close> counts a negative bound from the end of the content.
  With size 1 at offset \<open>-2\<close> \<open>read\<close> returns the byte \<^verbatim>\<open>l\<close> of \<^verbatim>\<open>hello\<close>, and with size
  \<open>-1\<close> at offset 0 it returns \<^verbatim>\<open>hell\<close>, where no position of the content lies in
  \<open>[offset, offset + size)\<close> and the range cut to \<open>[0, 5]\<close> is empty.
\<close>

theorem read_negative_bound_not_clamped:
  "gitfs_read example_repo ''/heads/main/README'' 1 (- 2) = Inr (Value ''l'')
   \<and> filter (\<lambda>k. - 2 \<le> int k \<and> int k < - 2 + 1) [0..<length ''hello''] = []
   \<and> gitfs_read example_repo ''/heads/main/README'' (- 1) 0 = Inr (Value ''hell'')
   \<and> filter (\<lambda>k. 0 \<le> int k \<and> int k < 0 + (- 1)) [0..<length ''hello''] = []"
  by (simp add: gitfs_read_def eval_defs example_defs slice_def slice_bound_def)

section \<open>Paths under more than one reference\<close>




section \<open>Opening\<close>

text \<open>
  \<open>O_RDONLY\<close> is 0, so \<^verbatim>\<open>flags & os.O_RDONLY\<close> is 0 for every \<open>flags\<close> and the test for
  a request that is not read-only never holds: \<open>open\<close> never answers \<open>EACCES\<close>.
\<close>

lemma open_never_denies: "gitfs_open path flags \<noteq> Inr (ErrorObject (FuseOSError EACCES))"
  by (simp add: gitfs_open_def O_RDONLY_def)

text \<open>
  Claim C7, as the code has it. \<open>open\<close> looks at the path only for the hidden prefix:
  a path that begins with \<^verbatim>\<open>/.\<close> is answered with the \<open>ENOENT\<close> object; for every other
  path, whether or not it resolves to a node, a read-only request (access mode
  \<open>O_RDONLY\<close>) is answered with the handle 0.
\<close>

theorem open_checks_hidden_only:
  "(startswith path ''/.'' \<longrightarrow> gitfs_open path flags = Inr (ErrorObject (FuseOSError ENOENT)))
   \<and> (\<not> startswith path ''/.'' \<and> flags AND O_ACCMODE = O_RDONLY \<longrightarrow>
        gitfs_open path flags = Inr (Value 0))"
  by (simp add: gitfs_open_def O_RDONLY_def)

text \<open>
  \<^verbatim>\<open>/.git\<close> is refused; \<^verbatim>\<open>/heads/main/README\<close> opens with the flags
  \<^verbatim>\<open>O_RDONLY | O_LARGEFILE\<close> (32768).
\<close>

theorem open_checks_hidden_only_witness:
  "gitfs_open ''/.git'' 0 = Inr (ErrorObject (FuseOSError ENOENT))
   \<and> gitfs_open ''/heads/main/README'' 32768 = Inr (Value 0)"
proof -
  have h1: "startswith ''/.git'' ''/.''"
    by (simp add: startswith_def)
  have h2: "\<not> startswith ''/heads/main/README'' ''/.''
            \<and> (32768 :: int) AND O_ACCMODE = O_RDONLY"
    by (simp add: startswith_def O_ACCMODE_def O_RDONLY_def)
  from open_checks_hidden_only [of "''/.git''" 0]
       open_checks_hidden_only [of "''/heads/main/README''" 32768] h1 h2
  show ?thesis by simp
qed

text \<open>
  The claim as stated fails: \<^verbatim>\<open>/heads/main/nothing\<close> names no node (\<open>getattr\<close> raises
  \<open>ENOENT\<close>), and a read-only \<open>open\<close> of it returns the handle 0.
\<close>

theorem open_missing_path_succeeds:
  "getattr example_repo ''/heads/main/nothing'' = Inl (FuseOSError ENOENT)
   \<and> gitfs_open ''/heads/main/nothing'' O_RDONLY = Inr (Value 0)"
  by (simp add: getattr_def gitfs_open_def eval_defs example_defs O_RDONLY_def)

section \<open>Listing a file or an unknown path\<close>

text \<open>
  Claim C8, as the code has it. Let the path not begin with \<^verbatim>\<open>/.\<close>, and be neither the
  root, nor a prefix directory of reference names, nor a reference name. If no
  reference name followed by a slash is a prefix of the path, \<open>readdir\<close> returns the
  empty list. If exactly one is, and the tree lookup of the rest of the path returns
  an entry that is not a directory, \<open>readdir\<close> returns the empty list as well; it raises
  \<open>FuseOSError(ENOENT)\<close> when that lookup returns \<open>None\<close>. Nothing is said of a path that
  begins with \<^verbatim>\<open>/.\<close>, nor of a lookup that raises.
\<close>

theorem readdir_file_or_unmatched:
  assumes hidden: "\<not> startswith path ''/.''"
    and root: "path \<noteq> ''/''"
    and ns: "filter (\<lambda>r. startswith r (path @ ''/'')) (refs repo) = []"
    and exact: "path \<notin> set (refs repo)"
  shows "(filter (\<lambda>r. startswith path (r @ ''/'')) (refs repo) = [] \<longrightarrow>
            readdir repo path = Inr [])
    \<and> (filter (\<lambda>r. startswith path (r @ ''/'')) (refs repo) = [ref_name]
         \<and> reference_oid repo (''refs'' @ ref_name) = Inr i
         \<and> repo_getitem repo i = Inr commit
         \<and> commit_tree repo commit = Inr tree \<longrightarrow>
           (git_tree_find repo tree (drop (length ref_name + 1) path) = Inr (Some e)
              \<and> entry_filemode e AND S_IFDIR \<noteq> S_IFDIR \<longrightarrow> readdir repo path = Inr [])
         \<and> (git_tree_find repo tree (drop (length ref_name + 1) path) = Inr None \<longrightarrow>
              readdir repo path = Inl (FuseOSError ENOENT)))"
  using root exact
  by (simp add: readdir_def Let_def ns)

text \<open>
  None of the three paths is hidden. The file \<^verbatim>\<open>/heads/main/README\<close> and the unknown
  \<^verbatim>\<open>/nothing/here\<close> list as empty; \<^verbatim>\<open>/heads/main/nothing\<close>, whose one segment is missing
  from the tree of its reference, raises \<open>ENOENT\<close>.
\<close>

theorem readdir_file_or_unmatched_witness:
  "readdir example_repo ''/heads/main/README'' = Inr []
   \<and> readdir example_repo ''/nothing/here'' = Inr []
   \<and> readdir example_repo ''/heads/main/nothing'' = Inl (FuseOSError ENOENT)"
proof -
  let ?e = "\<lparr>entry_name = ''README'', entry_filemode = 33188, entry_oid = 3\<rparr>"
  have ref: "reference_oid example_repo (''refs'' @ ''/heads/main'') = Inr 1"
    by (simp add: reference_oid_def example_repo_def)
  have commit: "repo_getitem example_repo 1 = Inr (Commit 2)"
    by (simp add: repo_getitem_def example_defs)
  have tree: "commit_tree example_repo (Commit 2) = Inr example_tree"
    by (simp add: commit_tree_def repo_getitem_def example_repo_def example_objects_def)
  have a: "readdir example_repo ''/heads/main/README'' = Inr []"
    using readdir_file_or_unmatched
      [of "''/heads/main/README''" example_repo "''/heads/main''" 1 "Commit 2" example_tree ?e]
      ref commit tree
    by (simp add: refs_example_repo startswith_def eval_defs example_defs S_IFDIR_def)
  have b: "readdir example_repo ''/nothing/here'' = Inr []"
    using readdir_file_or_unmatched [of "''/nothing/here''" example_repo]
    by (simp add: refs_example_repo startswith_def)
  have c: "readdir example_repo ''/heads/main/nothing'' = Inl (FuseOSError ENOENT)"
    using readdir_file_or_unmatched
      [of "''/heads/main/nothing''" example_repo "''/heads/main''" 1 "Commit 2" example_tree]
      ref commit tree
    by (simp add: refs_example_repo startswith_def eval_defs example_defs)
  from a b c show ?thesis by simp
qed

text \<open>
  The claim as stated fails: \<^verbatim>\<open>/heads/main/README\<close> lies under the one reference
  \<^verbatim>\<open>/heads/main\<close> and is a file of five bytes, \<^verbatim>\<open>/nothing/here\<close> is no node at all, and
  \<open>readdir\<close> returns the empty list for both.
\<close>

theorem readdir_file_returns_empty_list:
  "filter (\<lambda>r. startswith ''/heads/main/README'' (r @ ''/'')) (refs example_repo)
     = [''/heads/main'']
   \<and> getattr example_repo ''/heads/main/README''
       = Inr (example_stat\<lparr>st_mode := 33060, st_ino := 0, st_size := 5\<rparr>)
   \<and> readdir example_repo ''/heads/main/README'' = Inr []
   \<and> getattr example_repo ''/nothing/here'' = Inl (FuseOSError ENOENT)
   \<and> readdir example_repo ''/nothing/here'' = Inr []"
  by (simp add: getattr_def readdir_def eval_defs example_defs copy_stat_def S_IFDIR_def)

section \<open>Where the code leaves its own design\<close>

text \<open>
  \<open>getattr\<close> gives the directory attributes to every path that is not hidden and is a
  prefix of some reference name, wherever in the name the prefix ends.
\<close>

lemma getattr_prefix_is_directory:
  assumes "\<not> startswith path ''/.''" and "r \<in> set (refs repo)" and "startswith r path"
  shows "getattr repo path = Inr (copy_stat (repo_lstat repo) id)"
proof -
  from assms(2,3) have "get_child_refs repo path \<noteq> []"
    by (auto simp: get_child_refs_def filter_empty_conv)
  with assms(1) show ?thesis
    by (simp add: getattr_def Let_def)
qed

text \<open>
  Claim C2. With the single reference \<^verbatim>\<open>/heads/master\<close>, no reference name begins with
  \<^verbatim>\<open>/heads/ma/\<close>, so \<^verbatim>\<open>/heads/ma\<close> is no prefix directory and \<open>readdir\<close> finds nothing
  under it. \<open>getattr\<close> tests \<^verbatim>\<open>r.startswith(path)\<close> with no slash and returns the
  directory attributes for it.
\<close>

theorem getattr_partial_segment_is_directory:
  "refs master_repo = [''/heads/master'']
   \<and> filter (\<lambda>r. startswith r (''/heads/ma'' @ ''/'')) (refs master_repo) = []
   \<and> getattr master_repo ''/heads/ma'' = Inr (copy_stat (repo_lstat master_repo) id)
   \<and> readdir master_repo ''/heads/ma'' = Inr []"
  by (simp add: getattr_def readdir_def eval_defs master_repo_def)

text \<open>
  Claim C3. In the tree with the file \<^verbatim>\<open>README\<close> and the directory \<^verbatim>\<open>src\<close>, the lookup
  of \<^verbatim>\<open>nothing/a.py\<close>, whose first segment is missing, raises \<open>KeyError\<close>, and the lookup
  of \<^verbatim>\<open>README/a/b\<close>, whose first segment is a blob, raises \<open>TypeError\<close>: both leave the
  \<^verbatim>\<open>reduce\<close>, which stands outside the \<^verbatim>\<open>try\<close>. Only a blob met as the last but one
  object gives \<open>None\<close>.
\<close>

theorem git_tree_find_raises:
  "git_tree_find example_repo example_tree ''nothing/a.py'' = Inl KeyError
   \<and> git_tree_find example_repo example_tree ''README/a/b'' = Inl TypeError
   \<and> git_tree_find example_repo example_tree ''README/a'' = Inr None"
  by (simp add: eval_defs example_defs)

text \<open>The three operations that test for the hidden prefix answer \<open>ENOENT\<close>.\<close>

lemma hidden_path_rejected:
  assumes "startswith path ''/.''"
  shows "getattr repo path = Inl (FuseOSError ENOENT)"
    and "gitfs_open path flags = Inr (ErrorObject (FuseOSError ENOENT))"
    and "gitfs_read repo path sz offset = Inr (ErrorObject (FuseOSError ENOENT))"
  using assms by (simp_all add: getattr_def gitfs_open_def gitfs_read_def)

text \<open>
  Claim C5. \<open>getattr\<close>, \<open>open\<close> and \<open>read\<close> test for the prefix \<^verbatim>\<open>/.\<close> first and answer
  \<open>ENOENT\<close> (\<open>getattr\<close> raises it, \<open>open\<close> and \<open>read\<close> return the object); \<open>readdir\<close> has no
  such test and lists \<^verbatim>\<open>/.git\<close> as an empty directory.
\<close>

theorem readdir_hidden_path_lists_nothing:
  "readdir example_repo ''/.git'' = Inr []
   \<and> getattr example_repo ''/.git'' = Inl (FuseOSError ENOENT)
   \<and> gitfs_open ''/.git'' O_RDONLY = Inr (ErrorObject (FuseOSError ENOENT))
   \<and> gitfs_read example_repo ''/.git'' 10 0 = Inr (ErrorObject (FuseOSError ENOENT))"
  by (simp add: getattr_def readdir_def gitfs_open_def gitfs_read_def eval_defs example_defs)

end
